theory Spec2Isabelle
  imports Main "HOL-Library.AList"
begin

section \<open>Data model\<close>

text \<open>
  The package is a thin layer over Go's \<^verbatim>\<open>net/http\<close>, \<^verbatim>\<open>net/url\<close> and
  \<^verbatim>\<open>encoding/json\<close>.  Values of this package are modelled as records and datatypes;
  the standard library is a record of functions (\<open>lib\<close>) that every operation takes as
  its first argument, so that every theorem holds for any behaviour of the library.
\<close>

type_synonym bytes = string

text \<open>
  A Go \<^verbatim>\<open>error\<close> value returned to the caller, or a run-time panic (an index out of
  range, a failed type assertion).
\<close>

datatype error = Err string | Panic string

text \<open>
  \<^verbatim>\<open>url.Values\<close> and \<^verbatim>\<open>http.Header\<close> are \<^verbatim>\<open>map[string][]string\<close>.  A Go map is
  modelled as the list of its entries in the order a \<^verbatim>\<open>range\<close> loop visits them; the
  keys of a Go map are distinct.
\<close>

type_synonym url_Values = "(string \<times> string list) list"
type_synonym http_Header = "(string \<times> string list) list"

record url_Userinfo =
  username :: string
  password :: "string option"

record url_URL =
  Scheme :: string
  User :: "url_Userinfo option"
  RawQuery :: string
  Remainder :: string

text \<open>
  An \<^verbatim>\<open>io.Reader\<close>: the buffer that \<^verbatim>\<open>bytes.NewBuffer\<close> makes from a byte slice, or a
  stream of the caller, identified by its address.
\<close>

datatype reader = Buffer bytes | Stream nat

text \<open>
  The dynamic value held by the \<^verbatim>\<open>Payload interface{}\<close> field, by the properties
  \<open>Send\<close> inspects: whether it implements \<^verbatim>\<open>io.Reader\<close>, its \<^verbatim>\<open>reflect.Kind\<close>, and
  whether its dynamic type is exactly \<^verbatim>\<open>string\<close>, \<^verbatim>\<open>[]byte\<close> or \<^verbatim>\<open>[]interface{}\<close>.
  \<open>'v\<close> is the type of Go values that \<^verbatim>\<open>encoding/json\<close> reads and writes.
\<close>

datatype 'v payload =
    PReader nat
  | PMap 'v
  | PStruct 'v
  | PString string
  | PNamedString 'v
  | PBytes bytes
  | PInterfaces 'v
  | PSlice 'v
  | POther 'v

record http_Client =
  client_addr :: nat
  client_Transport :: "nat option"

record http_Request =
  req_Method :: string
  req_URL :: string
  req_Header :: http_Header
  req_Body :: "reader option"

text \<open>
  \<open>resp_Body\<close> is what \<^verbatim>\<open>ioutil.ReadAll\<close> returns on the body of the response: the
  bytes read and the read error, if any.
\<close>

record http_Response =
  StatusCode :: int
  resp_Header :: http_Header
  resp_Body :: "bytes \<times> error option"

record Session =
  Client :: "http_Client option"
  sUserinfo :: "url_Userinfo option"
  sHeader :: "http_Header option"
  sParams :: "url_Values option"

text \<open>
  Modelled from the spec: the fields \<open>Result\<close> and \<open>Error\<close>, which \<open>Send\<close> reads and
  the methods \<open>Get\<close>, \<open>Post\<close> and the like set, are missing from the declaration of
  \<^verbatim>\<open>Request\<close> in \<^verbatim>\<open>request.go\<close>.  The spec describes them as the destination for
  successful-response decoding and the destination for error-response decoding, each an
  untyped pointer.  A destination is \<open>None\<close> when the interface is nil and otherwise holds
  the current content of the object pointed to.
\<close>

record 'v Request =
  Url :: string
  Method :: string
  Params :: "url_Values option"
  Payload :: "'v payload option"
  Result :: "'v option"
  Error :: "'v option"
  NotProcessBody :: bool
  Userinfo :: "url_Userinfo option"
  Header :: "http_Header option"
  Transport :: "nat option"
  timestamp :: nat
  status :: int
  response :: "http_Response option"
  body :: bytes

type_synonym 'v Response = "'v Request"

subsection \<open>The standard library and the world outside\<close>

text \<open>
  The functions of Go's standard library that \<open>Send\<close> and the accessors call.
  \<open>URL_Query\<close>, \<open>URL_String\<close> and \<open>Values_Encode\<close> are the methods \<^verbatim>\<open>u.Query()\<close>,
  \<^verbatim>\<open>u.String()\<close> and \<^verbatim>\<open>p.Encode()\<close>; \<open>CanonicalMIMEHeaderKey\<close> is the form in which
  the methods of \<^verbatim>\<open>http.Header\<close> store and look up a header name.  \<open>json_Unmarshal\<close>
  takes the bytes and the content of the target and gives the error, if any, and the new
  content of the target.  \<open>NewRequest_error\<close> is the error that \<^verbatim>\<open>http.NewRequest\<close>
  returns for a method and a URL, if any; without one, the request has the method, the
  URL and the body given.  \<open>basicAuth\<close> is the encoding of a user name and a password
  that \<^verbatim>\<open>SetBasicAuth\<close> writes after \<^verbatim>\<open>Basic\<close>.  \<open>client_Do\<close> is the transport: its
  answer may depend on the calls made before, its first argument.
\<close>

record 'v lib =
  strings_ToUpper :: "string \<Rightarrow> string"
  url_Parse :: "string \<Rightarrow> error + url_URL"
  URL_Query :: "url_URL \<Rightarrow> url_Values"
  Values_Encode :: "url_Values \<Rightarrow> string"
  URL_String :: "url_URL \<Rightarrow> string"
  CanonicalMIMEHeaderKey :: "string \<Rightarrow> string"
  json_Marshal :: "'v \<Rightarrow> error + bytes"
  json_Unmarshal :: "bytes \<Rightarrow> 'v \<Rightarrow> error option \<times> 'v"
  NewRequest_error :: "string \<Rightarrow> string \<Rightarrow> error option"
  basicAuth :: "string \<Rightarrow> string \<Rightarrow> string"
  client_Do :: "(http_Client \<times> http_Request) list \<Rightarrow> http_Client \<Rightarrow> http_Request
                  \<Rightarrow> error + http_Response"

datatype log_arg = LStr string | LErr error

text \<open>
  The effects of \<open>Send\<close> outside its arguments: the lines written to the process log,
  the calls of \<^verbatim>\<open>http.NewRequest\<close> (method, URL, body), the calls of
  \<^verbatim>\<open>client.Do\<close> (client, request), the number of \<^verbatim>\<open>http.Client\<close> objects allocated,
  and the reading of the clock.
\<close>

record world =
  logged :: "log_arg list list"
  built :: "(string \<times> string \<times> reader option) list"
  calls :: "(http_Client \<times> http_Request) list"
  allocated :: nat
  now :: nat

definition log :: "world \<Rightarrow> log_arg list \<Rightarrow> world" where
  "log w args = w\<lparr>logged := logged w @ [args]\<rparr>"

subsection \<open>Headers\<close>

definition Header_Get :: "'v lib \<Rightarrow> http_Header \<Rightarrow> string \<Rightarrow> string" where
  "Header_Get l h k =
     (case map_of h (CanonicalMIMEHeaderKey l k) of
        None \<Rightarrow> ''''
      | Some [] \<Rightarrow> ''''
      | Some (v # _) \<Rightarrow> v)"

definition Header_Set :: "'v lib \<Rightarrow> http_Header \<Rightarrow> string \<Rightarrow> string \<Rightarrow> http_Header" where
  "Header_Set l h k v = AList.update (CanonicalMIMEHeaderKey l k) [v] h"

definition Header_Add :: "'v lib \<Rightarrow> http_Header \<Rightarrow> string \<Rightarrow> string \<Rightarrow> http_Header" where
  "Header_Add l h k v =
     AList.update (CanonicalMIMEHeaderKey l k)
       ((case map_of h (CanonicalMIMEHeaderKey l k) of None \<Rightarrow> [] | Some vs \<Rightarrow> vs) @ [v]) h"

section \<open>Session.Send\<close>

subsection \<open>Query parameters (api.go, lines 113 to 133)\<close>

text \<open>One \<^verbatim>\<open>for k, v := range m { p[k] = v }\<close> loop.\<close>

fun assign_all :: "url_Values \<Rightarrow> url_Values \<Rightarrow> url_Values" where
  "assign_all [] p = p"
| "assign_all ((k, v) # m) p = assign_all m (AList.update k v p)"

text \<open>
  \<open>u.Query()\<close> never returns nil, so the second loop always runs; the two pointers
  may be nil.
\<close>

definition merge_Params :: "url_Values option \<Rightarrow> url_Values \<Rightarrow> url_Values option \<Rightarrow> url_Values" where
  "merge_Params sp uq rp =
     (let p = [];
          p = (case sp of None \<Rightarrow> p | Some m \<Rightarrow> assign_all m p);
          p = assign_all uq p;
          p = (case rp of None \<Rightarrow> p | Some m \<Rightarrow> assign_all m p)
      in p)"

subsection \<open>Session headers (lines 142 to 148)\<close>

fun copy_Header :: "'v lib \<Rightarrow> http_Header \<Rightarrow> string list \<Rightarrow> http_Header \<Rightarrow> http_Header" where
  "copy_Header l sh [] header = header"
| "copy_Header l sh (k # ks) header =
     copy_Header l sh ks (Header_Set l header k (Header_Get l sh k))"

definition session_Header :: "'v lib \<Rightarrow> http_Header option \<Rightarrow> http_Header" where
  "session_Header l sh =
     (case sh of None \<Rightarrow> [] | Some h \<Rightarrow> copy_Header l h (map fst h) [])"

subsection \<open>Payload (lines 150 to 186)\<close>

text \<open>
  The \<^verbatim>\<open>switch kind\<close>: the new value of \<^verbatim>\<open>r.Payload\<close> and \<^verbatim>\<open>bydata\<close>, or the error of
  \<^verbatim>\<open>json.Marshal\<close> on a map or a struct.  A string payload is first stored back as a
  byte slice; the assertion \<^verbatim>\<open>r.Payload.(string)\<close> panics on a defined string type.
  The error of \<^verbatim>\<open>json.Marshal\<close> on a \<^verbatim>\<open>[]interface{}\<close> is dropped, and \<^verbatim>\<open>bydata\<close> is
  then nil.
\<close>

fun payload_bytes :: "'v lib \<Rightarrow> 'v payload \<Rightarrow> error + 'v payload \<times> bytes" where
  "payload_bytes l (PMap v) =
     (case json_Marshal l v of Inl err \<Rightarrow> Inl err | Inr b \<Rightarrow> Inr (PMap v, b))"
| "payload_bytes l (PStruct v) =
     (case json_Marshal l v of Inl err \<Rightarrow> Inl err | Inr b \<Rightarrow> Inr (PStruct v, b))"
| "payload_bytes l (PString s) = Inr (PBytes s, s)"
| "payload_bytes l (PNamedString v) = Inl (Panic ''interface conversion'')"
| "payload_bytes l (PBytes b) = Inr (PBytes b, b)"
| "payload_bytes l (PInterfaces v) =
     (case json_Marshal l v of Inl err \<Rightarrow> Inr (PInterfaces v, []) | Inr b \<Rightarrow> Inr (PInterfaces v, b))"
| "payload_bytes l p = Inr (p, [])"

definition json_brackets :: "bytes \<Rightarrow> bool" where
  "json_brackets bydata \<longleftrightarrow>
     (hd bydata = CHR ''{'' \<and> last bydata = CHR ''}'') \<or>
     (hd bydata = CHR ''['' \<and> last bydata = CHR '']'')"

text \<open>
  The whole block: the new \<^verbatim>\<open>r.Payload\<close>, \<^verbatim>\<open>paylodReader\<close> and \<^verbatim>\<open>header\<close>.  When the
  payload implements \<^verbatim>\<open>io.Reader\<close> the source assigns it to \<^verbatim>\<open>r.Payload\<close> again and
  leaves \<^verbatim>\<open>paylodReader\<close> nil.
\<close>

definition encode_Payload ::
  "'v lib \<Rightarrow> 'v payload option \<Rightarrow> http_Header
     \<Rightarrow> error + 'v payload option \<times> reader option \<times> http_Header" where
  "encode_Payload l pl header =
     (case pl of
        None \<Rightarrow> Inr (None, None, header)
      | Some (PReader a) \<Rightarrow> Inr (Some (PReader a), None, header)
      | Some p \<Rightarrow>
          (case payload_bytes l p of
             Inl err \<Rightarrow> Inl err
           | Inr (p', bydata) \<Rightarrow>
               if length bydata \<noteq> 0 then
                 Inr (Some p', Some (Buffer bydata),
                      if json_brackets bydata
                      then Header_Set l header ''Content-Type'' ''application/json''
                      else header)
               else Inr (Some p', None, header)))"

subsection \<open>Credentials and request headers (lines 194 to 223)\<close>

definition merge_Userinfo ::
  "url_Userinfo option \<Rightarrow> url_Userinfo option \<Rightarrow> url_Userinfo option \<Rightarrow> url_Userinfo option" where
  "merge_Userinfo uu su ru =
     (let userinfo = None;
          userinfo = (if uu \<noteq> None then uu else userinfo);
          userinfo = (if su \<noteq> None then su else userinfo);
          userinfo = (if ru \<noteq> None then ru else userinfo)
      in userinfo)"

text \<open>
  \<^verbatim>\<open>for k, v := range *r.Header { header.Set(k, v[0]) }\<close>: the index panics on an entry
  with no value.
\<close>

fun set_first_values :: "'v lib \<Rightarrow> http_Header \<Rightarrow> http_Header \<Rightarrow> error + http_Header" where
  "set_first_values l [] header = Inr header"
| "set_first_values l ((k, v) # rh) header =
     (case v of
        [] \<Rightarrow> Inl (Panic ''index out of range'')
      | x # _ \<Rightarrow> set_first_values l rh (Header_Set l header k x))"

definition request_Header :: "'v lib \<Rightarrow> http_Header option \<Rightarrow> http_Header \<Rightarrow> error + http_Header" where
  "request_Header l rh header =
     (case (case rh of None \<Rightarrow> Inr header | Some h \<Rightarrow> set_first_values l h header) of
        Inl err \<Rightarrow> Inl err
      | Inr header \<Rightarrow>
          Inr (if Header_Get l header ''Accept'' = ''''
               then Header_Add l header ''Accept'' ''*/*'' else header))"

text \<open>
  \<^verbatim>\<open>req.SetBasicAuth\<close> sets the \<^verbatim>\<open>Authorization\<close> entry of \<^verbatim>\<open>req.Header\<close>, which is the
  map \<^verbatim>\<open>header\<close>.
\<close>

definition set_BasicAuth ::
  "'v lib \<Rightarrow> url_URL \<Rightarrow> url_Userinfo option \<Rightarrow> http_Header \<Rightarrow> world \<Rightarrow> http_Header \<times> world" where
  "set_BasicAuth l u userinfo header w =
     (case userinfo of
        None \<Rightarrow> (header, w)
      | Some ui \<Rightarrow>
          (let pwd = (case password ui of None \<Rightarrow> '''' | Some x \<Rightarrow> x);
               header = Header_Set l header ''Authorization''
                          (''Basic '' @ basicAuth l (username ui) pwd)
           in (header,
               if Scheme u \<noteq> ''https''
               then log w [LStr ''WARNING: Using HTTP Basic Auth in cleartext is insecure.'']
               else w)))"

subsection \<open>The client (lines 226 to 236)\<close>

definition get_Client :: "Session \<Rightarrow> 'v Request \<Rightarrow> world \<Rightarrow> http_Client \<times> Session \<times> world" where
  "get_Client s r w =
     (case Client s of
        Some c \<Rightarrow> (c, s, w)
      | None \<Rightarrow>
          (let client = \<lparr>client_addr = allocated w, client_Transport = None\<rparr>;
               client = (case Transport r of
                           None \<Rightarrow> client
                         | Some t \<Rightarrow> client\<lparr>client_Transport := Some t\<rparr>)
           in (client, s\<lparr>Client := Some client\<rparr>, w\<lparr>allocated := allocated w + 1\<rparr>)))"

subsection \<open>The response body (lines 245 to 262)\<close>

text \<open>
  \<^verbatim>\<open>json.Unmarshal\<close> writes through the destination pointer and its error is not looked
  at.
\<close>

definition decode_Body :: "'v lib \<Rightarrow> int \<Rightarrow> 'v Request \<Rightarrow> 'v Request" where
  "decode_Body l code r =
     (if body r \<noteq> '''' then
        (let r = (case Result r of
                    Some dst \<Rightarrow>
                      if code \<le> 200
                      then r\<lparr>Result := Some (snd (json_Unmarshal l (body r) dst))\<rparr> else r
                  | None \<Rightarrow> r);
             r = (case Error r of
                    Some dst \<Rightarrow>
                      if code > 200
                      then r\<lparr>Error := Some (snd (json_Unmarshal l (body r) dst))\<rparr> else r
                  | None \<Rightarrow> r)
         in r)
      else r)"

subsection \<open>After the transport has answered (lines 238 to 266)\<close>

text \<open>
  What a call of \<open>Send\<close> leaves behind: the returned pair (\<open>Inl\<close> the error, \<open>Inr\<close> the
  response, a copy of the request), the session, the request descriptor and the world.
\<close>

record 'v outcome =
  ret :: "error + 'v Response"
  sess :: Session
  req :: "'v Request"
  wld :: world

definition receive ::
  "'v lib \<Rightarrow> world \<Rightarrow> Session \<Rightarrow> 'v Request \<Rightarrow> error + http_Response \<Rightarrow> 'v outcome" where
  "receive l w s r answer =
     (case answer of
        Inl err \<Rightarrow> \<lparr>ret = Inl err, sess = s, req = r, wld = log w [LErr err]\<rparr>
      | Inr resp \<Rightarrow>
          (let r = r\<lparr>status := StatusCode resp, response := Some resp\<rparr> in
           if \<not> NotProcessBody r then
             (let r = r\<lparr>body := fst (resp_Body resp)\<rparr> in
              case snd (resp_Body resp) of
                Some err \<Rightarrow> \<lparr>ret = Inl err, sess = s, req = r, wld = log w [LErr err]\<rparr>
              | None \<Rightarrow>
                  (let r = decode_Body l (StatusCode resp) r
                   in \<lparr>ret = Inr r, sess = s, req = r, wld = w\<rparr>))
           else \<lparr>ret = Inr r, sess = s, req = r, wld = w\<rparr>))"

subsection \<open>Send\<close>

definition Send :: "'v lib \<Rightarrow> world \<Rightarrow> Session \<Rightarrow> 'v Request \<Rightarrow> 'v outcome" where
  "Send l w s r0 =
     (let r = r0\<lparr>Method := strings_ToUpper l (Method r0)\<rparr> in
      case url_Parse l (Url r) of
        Inl err \<Rightarrow>
          \<lparr>ret = Inl err, sess = s, req = r,
           wld = log (log w [LStr ''URL'', LStr (Url r)]) [LErr err]\<rparr>
      | Inr u0 \<Rightarrow>
          (let p = merge_Params (sParams s) (URL_Query l u0) (Params r);
               u = u0\<lparr>RawQuery := Values_Encode l p\<rparr>;
               r = r\<lparr>Params := Some p\<rparr>;
               header = session_Header l (sHeader s)
           in
           case encode_Payload l (Payload r) header of
             Inl err \<Rightarrow> \<lparr>ret = Inl err, sess = s, req = r, wld = w\<rparr>
           | Inr (pl, paylodReader, header) \<Rightarrow>
               (let r = r\<lparr>Payload := pl\<rparr>;
                    w = w\<lparr>built := built w @ [(Method r, URL_String l u, paylodReader)]\<rparr>
                in
                case NewRequest_error l (Method r) (URL_String l u) of
                  Some err \<Rightarrow> \<lparr>ret = Inl err, sess = s, req = r, wld = log w [LErr err]\<rparr>
                | None \<Rightarrow>
                    (let rq = \<lparr>req_Method = Method r, req_URL = URL_String l u,
                               req_Header = [], req_Body = paylodReader\<rparr>;
                         userinfo = merge_Userinfo (User u) (sUserinfo s) (Userinfo r)
                     in
                     case request_Header l (Header r) header of
                       Inl err \<Rightarrow> \<lparr>ret = Inl err, sess = s, req = r, wld = w\<rparr>
                     | Inr header \<Rightarrow>
                         (let (header, w) = set_BasicAuth l u userinfo header w;
                              rq = rq\<lparr>req_Header := header\<rparr>;
                              r = r\<lparr>timestamp := now w\<rparr>;
                              (client, s, w) = get_Client s r w;
                              answer = client_Do l (calls w) client rq;
                              w = w\<lparr>calls := calls w @ [(client, rq)]\<rparr>
                          in receive l w s r answer)))))"

text \<open>Several sends through one session, one after the other.\<close>

fun Sends :: "'v lib \<Rightarrow> world \<Rightarrow> Session \<Rightarrow> 'v Request list \<Rightarrow> Session \<times> world" where
  "Sends l w s [] = (s, w)"
| "Sends l w s (r # rs) = Sends l (wld (Send l w s r)) (sess (Send l w s r)) rs"

section \<open>The response accessors (request.go)\<close>

definition Status :: "'v Response \<Rightarrow> int" where
  "Status r = status r"

definition RawByte :: "'v Response \<Rightarrow> bytes" where
  "RawByte r = body r"

definition StatusOk :: "'v Response \<Rightarrow> bool" where
  "StatusOk r \<longleftrightarrow> status r \<le> 300"

text \<open>
  \<open>Unmarshal\<close> has a pointer receiver and writes through \<open>v\<close>: it gives back the
  response, the new content of the target and the error of \<^verbatim>\<open>json.Unmarshal\<close>.
\<close>

definition Unmarshal :: "'v lib \<Rightarrow> 'v Response \<Rightarrow> 'v \<Rightarrow> 'v Response \<times> 'v \<times> error option" where
  "Unmarshal l r v = (r, snd (json_Unmarshal l (body r) v), fst (json_Unmarshal l (body r) v))"

text \<open>Calls of \<open>Unmarshal\<close> on one response, into one target after the other.\<close>

fun Unmarshal_each :: "'v lib \<Rightarrow> 'v Response \<Rightarrow> 'v list \<Rightarrow> 'v Response \<times> ('v \<times> error option) list" where
  "Unmarshal_each l r [] = (r, [])"
| "Unmarshal_each l r (v # vs) =
     (case Unmarshal l r v of
        (r', res) \<Rightarrow> (case Unmarshal_each l r' vs of (r'', ress) \<Rightarrow> (r'', res # ress)))"

section \<open>Reading a layer of query parameters\<close>

text \<open>
  The value a layer holds for a key (a nil layer holds none), and the condition that the
  keys of a layer are distinct, as the keys of a Go map are.
\<close>

definition lookup :: "url_Values option \<Rightarrow> string \<Rightarrow> string list option" where
  "lookup m k = (case m of None \<Rightarrow> None | Some xs \<Rightarrow> map_of xs k)"

definition keys_distinct :: "url_Values option \<Rightarrow> bool" where
  "keys_distinct m = (case m of None \<Rightarrow> True | Some xs \<Rightarrow> distinct (map fst xs))"

section \<open>A small instance of the library\<close>

text \<open>
  Concrete inputs, on which the model can be evaluated.  The library functions are given
  by tables that agree with Go's standard library on the inputs used below: a Go value is
  written as its JSON text, \<^verbatim>\<open>url.Parse\<close> rejects \<^verbatim>\<open>:bad\<close> (a missing protocol
  scheme), \<^verbatim>\<open>json.Marshal\<close> rejects a channel, and the server answers 404 to one
  path and 200 with an empty JSON object to every other.  \<open>Values_Encode\<close> writes the
  entries in list order and does not escape.
\<close>

fun join_amp :: "string list \<Rightarrow> string" where
  "join_amp [] = ''''"
| "join_amp [x] = x"
| "join_amp (x # y # ys) = x @ ''&'' @ join_amp (y # ys)"

definition demo_lib :: "string lib" where
  "demo_lib =
     \<lparr>strings_ToUpper = (\<lambda>m. if m = ''get'' then ''GET'' else if m = ''post'' then ''POST'' else m),
      url_Parse = (\<lambda>raw.
        if raw = '':bad'' then Inl (Err ''missing protocol scheme'')
        else if raw = ''http://example.com/api?a=url&k=url''
        then Inr \<lparr>Scheme = ''http'', User = None, RawQuery = ''a=url&k=url'',
                  Remainder = ''//example.com/api''\<rparr>
        else Inr \<lparr>Scheme = ''http'', User = None, RawQuery = '''', Remainder = drop 5 raw\<rparr>),
      URL_Query = (\<lambda>u.
        if RawQuery u = ''a=url&k=url'' then [(''a'', [''url'']), (''k'', [''url''])] else []),
      Values_Encode = (\<lambda>p. join_amp (concat (map (\<lambda>(k, vs). map (\<lambda>v. k @ ''='' @ v) vs) p))),
      URL_String = (\<lambda>u. Scheme u @ '':'' @ Remainder u @
        (if RawQuery u = '''' then '''' else ''?'' @ RawQuery u)),
      CanonicalMIMEHeaderKey = (\<lambda>k.
        if k = ''content-type'' then ''Content-Type'' else if k = ''accept'' then ''Accept'' else k),
      json_Marshal = (\<lambda>v. if v = ''chan'' then Inl (Err ''json: unsupported type'') else Inr v),
      json_Unmarshal = (\<lambda>b dst.
        if b \<noteq> '''' \<and> json_brackets b then (None, b) else (Some (Err ''invalid character''), dst)),
      NewRequest_error = (\<lambda>m u. None),
      basicAuth = (\<lambda>u p. if u = ''user'' \<and> p = ''pass'' then ''dXNlcjpwYXNz'' else ''''),
      client_Do = (\<lambda>earlier c q.
        if req_URL q = ''http://example.com/missing''
        then Inr \<lparr>StatusCode = 404, resp_Header = [], resp_Body = (''not found'', None)\<rparr>
        else Inr \<lparr>StatusCode = 200, resp_Header = [], resp_Body = (''{}'', None)\<rparr>)\<rparr>"

definition demo_world :: world where
  "demo_world = \<lparr>logged = [], built = [], calls = [], allocated = 0, now = 0\<rparr>"

definition demo_session :: Session where
  "demo_session = \<lparr>Client = None, sUserinfo = None, sHeader = None, sParams = None\<rparr>"

definition demo_request :: "string Request" where
  "demo_request =
     \<lparr>Url = ''http://example.com/api'', Method = ''post'', Params = None, Payload = None,
      Result = None, Error = None, NotProcessBody = False, Userinfo = None, Header = None,
      Transport = None, timestamp = 0, status = 0, response = None, body = ''''\<rparr>"

text \<open>Three layers of query parameters: the key \<open>k\<close> is in all of them, the key \<open>a\<close> in the session and in the URL.\<close>

definition params_session :: Session where
  "params_session = demo_session\<lparr>sParams := Some [(''a'', [''session'']), (''k'', [''session''])]\<rparr>"

definition params_request :: "string Request" where
  "params_request = demo_request\<lparr>Url := ''http://example.com/api?a=url&k=url'',
     Params := Some [(''k'', [''request''])]\<rparr>"

text \<open>A session with a default \<^verbatim>\<open>Content-Type\<close>, and a request whose payload is the bytes of a JSON array.\<close>

definition plain_session :: Session where
  "plain_session = demo_session\<lparr>sHeader := Some [(''Content-Type'', [''text/plain''])]\<rparr>"

definition json_request :: "string Request" where
  "json_request = demo_request\<lparr>Payload := Some (PBytes ''[1,2]'')\<rparr>"

text \<open>A session whose client the caller has set, and a request whose payload is a stream.\<close>

definition preset_session :: Session where
  "preset_session = demo_session\<lparr>Client := Some \<lparr>client_addr = 9, client_Transport = None\<rparr>\<rparr>"

definition stream_request :: "string Request" where
  "stream_request = demo_request\<lparr>Payload := Some (PReader 7)\<rparr>"

text \<open>Two requests with both destinations supplied: one to the path that answers 404, one to a path that answers 200.\<close>

definition missing_request :: "string Request" where
  "missing_request = demo_request\<lparr>Url := ''http://example.com/missing'',
     Result := Some ''old'', Error := Some ''old''\<rparr>"

definition found_request :: "string Request" where
  "found_request = demo_request\<lparr>Result := Some ''old'', Error := Some ''old''\<rparr>"

section \<open>Lemmas about the parts of Send\<close>

lemmas demo_defs = demo_lib_def demo_world_def demo_session_def demo_request_def
lemmas Send_defs = Send_def receive_def log_def encode_Payload_def merge_Params_def session_Header_def
  request_Header_def merge_Userinfo_def set_BasicAuth_def get_Client_def decode_Body_def
  Header_Get_def Header_Set_def Header_Add_def json_brackets_def Let_def

lemma set_BasicAuth_world [simp]:
  "calls (snd (set_BasicAuth l u ui h w)) = calls w"
  "built (snd (set_BasicAuth l u ui h w)) = built w"
  "allocated (snd (set_BasicAuth l u ui h w)) = allocated w"
  "now (snd (set_BasicAuth l u ui h w)) = now w"
  by (simp_all add: set_BasicAuth_def log_def Let_def split: option.splits)

lemma log_world [simp]:
  "calls (log w a) = calls w" "built (log w a) = built w" "allocated (log w a) = allocated w"
  by (simp_all add: log_def)

lemma receive_world [simp]:
  "calls (wld (receive l w s r a)) = calls w"
  "built (wld (receive l w s r a)) = built w"
  "allocated (wld (receive l w s r a)) = allocated w"
  "sess (receive l w s r a) = s"
  by (simp_all add: receive_def Let_def split: sum.splits option.splits)

lemma get_Client_Some:
  "Client s = Some c \<Longrightarrow> get_Client s r w = (c, s, w)"
  by (simp add: get_Client_def)

lemma get_Client_None:
  "Client s = None \<Longrightarrow> get_Client s r w =
     (\<lparr>client_addr = allocated w, client_Transport = Transport r\<rparr>,
      s\<lparr>Client := Some \<lparr>client_addr = allocated w, client_Transport = Transport r\<rparr>\<rparr>,
      w\<lparr>allocated := allocated w + 1\<rparr>)"
  by (simp add: get_Client_def Let_def split: option.splits)

lemma Send_keeps_Client:
  assumes "Client s = Some c"
  shows "sess (Send l w s r) = s \<and> allocated (wld (Send l w s r)) = allocated w \<and>
     (calls (wld (Send l w s r)) = calls w \<or> (\<exists>q. calls (wld (Send l w s r)) = calls w @ [(c, q)]))"
  using assms
  by (simp add: Send_def Let_def split_beta get_Client_Some split: sum.splits option.splits)

lemma Send_makes_Client:
  assumes "Client s = None"
  shows "(sess (Send l w s r) = s \<and> allocated (wld (Send l w s r)) = allocated w \<and>
          calls (wld (Send l w s r)) = calls w) \<or>
     (\<exists>q. sess (Send l w s r) =
            s\<lparr>Client := Some \<lparr>client_addr = allocated w, client_Transport = Transport r\<rparr>\<rparr> \<and>
          allocated (wld (Send l w s r)) = allocated w + 1 \<and>
          calls (wld (Send l w s r)) =
            calls w @ [(\<lparr>client_addr = allocated w, client_Transport = Transport r\<rparr>, q)])"
  using assms
  by (simp add: Send_def Let_def split_beta get_Client_None split: sum.splits option.splits)

lemma Sends_Client_set:
  assumes "Client s = Some c"
  shows "\<exists>ext. calls (snd (Sends l w s rs)) = calls w @ ext \<and> (\<forall>x\<in>set ext. fst x = c) \<and>
     fst (Sends l w s rs) = s \<and> allocated (snd (Sends l w s rs)) = allocated w"
  using assms
proof (induction rs arbitrary: w)
  case Nil
  then show ?case by simp
next
  case (Cons r rs)
  from Send_keeps_Client [OF Cons.prems, of l w r]
  have keep: "sess (Send l w s r) = s" "allocated (wld (Send l w s r)) = allocated w"
    and step: "calls (wld (Send l w s r)) = calls w \<or>
               (\<exists>q. calls (wld (Send l w s r)) = calls w @ [(c, q)])"
    by simp_all
  from Cons.IH [OF Cons.prems, of "wld (Send l w s r)"] obtain ext where
    ext: "calls (snd (Sends l (wld (Send l w s r)) s rs)) = calls (wld (Send l w s r)) @ ext"
      "\<forall>x\<in>set ext. fst x = c" "fst (Sends l (wld (Send l w s r)) s rs) = s"
      "allocated (snd (Sends l (wld (Send l w s r)) s rs)) = allocated (wld (Send l w s r))"
    by blast
  from step show ?case
  proof
    assume "calls (wld (Send l w s r)) = calls w"
    with ext keep show ?thesis by auto
  next
    assume "\<exists>q. calls (wld (Send l w s r)) = calls w @ [(c, q)]"
    then obtain q where "calls (wld (Send l w s r)) = calls w @ [(c, q)]" ..
    with ext keep have "calls (snd (Sends l w s (r # rs))) = calls w @ ((c, q) # ext)"
      "\<forall>x\<in>set ((c, q) # ext). fst x = c" by simp_all
    with ext keep show ?thesis by (metis Sends.simps(2))
  qed
qed

lemma Sends_Client_unset:
  assumes "Client s = None"
  shows "(calls (snd (Sends l w s rs)) = calls w \<and> fst (Sends l w s rs) = s \<and>
          allocated (snd (Sends l w s rs)) = allocated w) \<or>
     (\<exists>c ext. ext \<noteq> [] \<and> calls (snd (Sends l w s rs)) = calls w @ ext \<and>
          (\<forall>x\<in>set ext. fst x = c) \<and> Client (fst (Sends l w s rs)) = Some c \<and>
          allocated (snd (Sends l w s rs)) = allocated w + 1)"
  using assms
proof (induction rs arbitrary: w)
  case Nil
  then show ?case by simp
next
  case (Cons r rs)
  let ?o = "Send l w s r"
  let ?c = "\<lparr>client_addr = allocated w, client_Transport = Transport r\<rparr>"
  from Send_makes_Client [OF Cons.prems, of l w r]
  consider (idle) "sess ?o = s" "allocated (wld ?o) = allocated w" "calls (wld ?o) = calls w"
    | (made) q where "sess ?o = s\<lparr>Client := Some ?c\<rparr>" "allocated (wld ?o) = allocated w + 1"
        "calls (wld ?o) = calls w @ [(?c, q)]"
    by blast
  then show ?case
  proof cases
    case idle
    with Cons.IH [OF Cons.prems, of "wld ?o"] show ?thesis by simp
  next
    case made
    then have "Client (sess ?o) = Some ?c" by simp
    from Sends_Client_set [OF this, of l "wld ?o" rs] obtain ext where
      ext: "calls (snd (Sends l (wld ?o) (sess ?o) rs)) = calls (wld ?o) @ ext"
        "\<forall>x\<in>set ext. fst x = ?c" "fst (Sends l (wld ?o) (sess ?o) rs) = sess ?o"
        "allocated (snd (Sends l (wld ?o) (sess ?o) rs)) = allocated (wld ?o)"
      by blast
    let ?ext = "(?c, q) # ext"
    from ext made have "?ext \<noteq> []" "calls (snd (Sends l w s (r # rs))) = calls w @ ?ext"
      "\<forall>x\<in>set ?ext. fst x = ?c" "Client (fst (Sends l w s (r # rs))) = Some ?c"
      "allocated (snd (Sends l w s (r # rs))) = allocated w + 1"
      by simp_all
    then show ?thesis by blast
  qed
qed

lemma Unmarshal_each_keeps:
  "fst (Unmarshal_each l r vs) = r \<and>
   snd (Unmarshal_each l r vs) = map (\<lambda>v. snd (Unmarshal l r v)) vs"
  by (induction vs) (simp_all add: Unmarshal_def split_beta)

lemma receive_ret_req:
  "ret (receive l w s r a) = ret (receive l w' s' r a)"
  "req (receive l w s r a) = req (receive l w' s' r a)"
  by (simp_all add: receive_def Let_def split: sum.splits option.splits)

lemma fst_set_BasicAuth:
  "fst (set_BasicAuth l u ui h w) =
     (case ui of
        None \<Rightarrow> h
      | Some i \<Rightarrow> Header_Set l h ''Authorization''
          (''Basic '' @ basicAuth l (username i) (case password i of None \<Rightarrow> '''' | Some x \<Rightarrow> x)))"
  by (simp add: set_BasicAuth_def Let_def split: option.splits)

lemma get_Client_world [simp]:
  "calls (snd (snd (get_Client s r w))) = calls w"
  "built (snd (snd (get_Client s r w))) = built w"
  by (simp_all add: get_Client_def Let_def split: option.splits)

lemma Send_calls_grew:
  assumes grew: "calls (wld (Send l w s r)) = calls w @ [(c, q)]"
  obtains u0 pl rd h0 h1 where
    "url_Parse l (Url r) = Inr u0"
    "encode_Payload l (Payload r) (session_Header l (sHeader s)) = Inr (pl, rd, h0)"
    "request_Header l (Header r) h0 = Inr h1"
    "req_Header q =
       fst (set_BasicAuth l
              (u0\<lparr>RawQuery := Values_Encode l (merge_Params (sParams s) (URL_Query l u0) (Params r))\<rparr>)
              (merge_Userinfo (User u0) (sUserinfo s) (Userinfo r)) h1 w)"
    "req_Body q = rd"
    "c = fst (get_Client s r w)"
    "ret (Send l w s r) =
       ret (receive l w s
             (r\<lparr>Method := strings_ToUpper l (Method r),
                Params := Some (merge_Params (sParams s) (URL_Query l u0) (Params r)),
                Payload := pl, timestamp := now w\<rparr>)
             (client_Do l (calls w) c q))"
    "req (Send l w s r) =
       req (receive l w s
             (r\<lparr>Method := strings_ToUpper l (Method r),
                Params := Some (merge_Params (sParams s) (URL_Query l u0) (Params r)),
                Payload := pl, timestamp := now w\<rparr>)
             (client_Do l (calls w) c q))"
proof (cases "url_Parse l (Url r)")
  case (Inl err)
  with grew show ?thesis by (simp add: Send_def)
next
  case u0: (Inr u0)
  let ?p = "merge_Params (sParams s) (URL_Query l u0) (Params r)"
  let ?u = "u0\<lparr>RawQuery := Values_Encode l ?p\<rparr>"
  show ?thesis
  proof (cases "encode_Payload l (Payload r) (session_Header l (sHeader s))")
    case (Inl err)
    with grew u0 show ?thesis by (simp add: Send_def Let_def)
  next
    case (Inr x)
    then obtain pl rd h0 where
      enc: "encode_Payload l (Payload r) (session_Header l (sHeader s)) = Inr (pl, rd, h0)"
      by (cases x) auto
    show ?thesis
    proof (cases "NewRequest_error l (strings_ToUpper l (Method r)) (URL_String l ?u)")
      case (Some err)
      with grew u0 enc show ?thesis by (simp add: Send_def Let_def)
    next
      case nr: None
      show ?thesis
      proof (cases "request_Header l (Header r) h0")
        case (Inl err)
        with grew u0 enc nr show ?thesis by (simp add: Send_def Let_def)
      next
        case h1: (Inr h1)
        let ?R = "r\<lparr>Method := strings_ToUpper l (Method r), Params := Some ?p,
                Payload := pl, timestamp := now w\<rparr>"
        have cq: "c = fst (get_Client s r w) \<and>
          q = \<lparr>req_Method = strings_ToUpper l (Method r), req_URL = URL_String l ?u,
                req_Header = fst (set_BasicAuth l ?u
                  (merge_Userinfo (User u0) (sUserinfo s) (Userinfo r)) h1 w),
                req_Body = rd\<rparr>"
        proof (cases "Client s")
          case None
          with grew u0 enc nr h1 show ?thesis
            by (simp add: Send_def Let_def split_beta get_Client_None fst_set_BasicAuth)
        next
          case (Some c')
          with grew u0 enc nr h1 show ?thesis
            by (simp add: Send_def Let_def split_beta get_Client_Some fst_set_BasicAuth)
        qed
        have "\<exists>W S. Send l w s r = receive l W S ?R (client_Do l (calls w) c q)"
        proof (cases "Client s")
          case None
          with u0 enc nr h1 cq show ?thesis
            by (simp add: Send_def Let_def split_beta get_Client_None fst_set_BasicAuth) blast
        next
          case (Some c')
          with u0 enc nr h1 cq show ?thesis
            by (simp add: Send_def Let_def split_beta get_Client_Some fst_set_BasicAuth) blast
        qed
        then obtain W S where "Send l w s r = receive l W S ?R (client_Do l (calls w) c q)"
          by blast
        then have "ret (Send l w s r) = ret (receive l w s ?R (client_Do l (calls w) c q))"
          "req (Send l w s r) = req (receive l w s ?R (client_Do l (calls w) c q))"
          using receive_ret_req [of l W S ?R "client_Do l (calls w) c q" w s] by simp_all
        then show ?thesis
          using that [OF u0 enc h1] cq by simp
      qed
    qed
  qed
qed

lemma receive_decodes:
  assumes "\<not> NotProcessBody r" and "resp_Body resp = (b, None)" and "b \<noteq> ''''"
  shows "ret (receive l w s r (Inr resp)) = Inr (req (receive l w s r (Inr resp))) \<and>
     body (req (receive l w s r (Inr resp))) = b \<and>
     status (req (receive l w s r (Inr resp))) = StatusCode resp \<and>
     Result (req (receive l w s r (Inr resp))) =
       (if StatusCode resp \<le> 200
        then map_option (\<lambda>dst. snd (json_Unmarshal l b dst)) (Result r) else Result r) \<and>
     Error (req (receive l w s r (Inr resp))) =
       (if StatusCode resp > 200
        then map_option (\<lambda>dst. snd (json_Unmarshal l b dst)) (Error r) else Error r)"
  using assms by (simp add: receive_def decode_Body_def Let_def split: option.splits)

lemma assign_all_map_of:
  "distinct (map fst m) \<Longrightarrow> map_of (assign_all m p) = map_of p ++ map_of m"
proof (induction m arbitrary: p)
  case Nil
  then show ?case by simp
next
  case (Cons kv m)
  obtain k v where kv: "kv = (k, v)" by (cases kv)
  from Cons.prems kv have "k \<notin> fst ` set m" and "distinct (map fst m)" by auto
  then have "map_of m k = None" by (simp add: map_of_eq_None_iff)
  with Cons.IH [OF \<open>distinct (map fst m)\<close>, of "AList.update k v p"] kv
  show ?case
    by (auto simp add: update_conv' map_add_def fun_eq_iff split: option.splits)
qed

lemma merge_Params_map_of:
  assumes "keys_distinct sp" and "distinct (map fst uq)" and "keys_distinct rp"
  shows "map_of (merge_Params sp uq rp) k =
     (case lookup rp k of
        Some v \<Rightarrow> Some v
      | None \<Rightarrow> (case map_of uq k of Some v \<Rightarrow> Some v | None \<Rightarrow> lookup sp k))"
  using assms
  by (simp add: merge_Params_def keys_distinct_def lookup_def assign_all_map_of map_add_def
      split: option.splits)

lemma decode_Body_Params [simp]: "Params (decode_Body l code r) = Params r"
  by (simp add: decode_Body_def Let_def split: option.splits)

lemma receive_Params [simp]: "Params (req (receive l w s r a)) = Params r"
  by (simp add: receive_def Let_def split: sum.splits option.splits)

lemma Send_Params_stored:
  assumes "url_Parse l (Url r) = Inr u"
  shows "Params (req (Send l w s r)) = Some (merge_Params (sParams s) (URL_Query l u) (Params r))"
  using assms
  by (simp add: Send_def Let_def split_beta split: sum.splits option.splits)

lemma Send_built:
  assumes "url_Parse l (Url r) = Inr u"
  shows "built (wld (Send l w s r)) = built w \<or>
     (\<exists>b. built (wld (Send l w s r)) = built w @
        [(strings_ToUpper l (Method r),
          URL_String l (u\<lparr>RawQuery :=
            Values_Encode l (merge_Params (sParams s) (URL_Query l u) (Params r))\<rparr>), b)])"
  using assms
  by (simp add: Send_def Let_def split_beta split: sum.splits option.splits)

lemma map_of_Header_Set:
  "map_of (Header_Set l h k v) K =
     (if CanonicalMIMEHeaderKey l k = K then Some [v] else map_of h K)"
  by (simp add: Header_Set_def update_conv')

lemma map_of_Header_Add:
  "CanonicalMIMEHeaderKey l k \<noteq> K \<Longrightarrow> map_of (Header_Add l h k v) K = map_of h K"
  by (simp add: Header_Add_def update_conv')

lemma set_first_values_other:
  assumes "set_first_values l rh h = Inr h'"
    and "K \<notin> (\<lambda>x. CanonicalMIMEHeaderKey l (fst x)) ` set rh"
  shows "map_of h' K = map_of h K"
  using assms
proof (induction rh arbitrary: h)
  case Nil
  then show ?case by simp
next
  case (Cons kv rh)
  obtain k v where kv: "kv = (k, v)" by (cases kv)
  from Cons.prems kv obtain x xs where v: "v = x # xs"
    and rest: "set_first_values l rh (Header_Set l h k x) = Inr h'"
    by (cases v) auto
  from Cons.prems(2) kv have "CanonicalMIMEHeaderKey l k \<noteq> K"
    and "K \<notin> (\<lambda>x. CanonicalMIMEHeaderKey l (fst x)) ` set rh" by auto
  with Cons.IH [OF rest] show ?case by (simp add: map_of_Header_Set)
qed

lemma set_first_values_entry:
  assumes "set_first_values l rh h = Inr h'"
    and "distinct (map (\<lambda>x. CanonicalMIMEHeaderKey l (fst x)) rh)"
    and "(k, v # vs) \<in> set rh"
  shows "map_of h' (CanonicalMIMEHeaderKey l k) = Some [v]"
  using assms
proof (induction rh arbitrary: h)
  case Nil
  then show ?case by simp
next
  case (Cons kv rh)
  obtain k' v' where kv: "kv = (k', v')" by (cases kv)
  from Cons.prems(1) kv obtain x xs where v': "v' = x # xs"
    and rest: "set_first_values l rh (Header_Set l h k' x) = Inr h'"
    by (cases v') auto
  from Cons.prems(2) kv
  have fresh: "CanonicalMIMEHeaderKey l k' \<notin> (\<lambda>x. CanonicalMIMEHeaderKey l (fst x)) ` set rh"
    and dist: "distinct (map (\<lambda>x. CanonicalMIMEHeaderKey l (fst x)) rh)"
    by auto
  show ?case
  proof (cases "(k, v # vs) \<in> set rh")
    case True
    from Cons.IH [OF rest dist True] show ?thesis .
  next
    case False
    with Cons.prems(3) kv v' have same: "k' = k" "x = v" by auto
    from set_first_values_other [OF rest fresh] same
    show ?thesis by (simp add: map_of_Header_Set)
  qed
qed

lemma encode_Payload_JSON:
  assumes "payload_bytes l p = Inr (p', bydata)" and "bydata \<noteq> ''''" and "json_brackets bydata"
    and "encode_Payload l (Some p) h = Inr (pl, rd, h0)"
  shows "map_of h0 (CanonicalMIMEHeaderKey l ''Content-Type'') = Some [''application/json'']"
  using assms
  by (cases p) (auto simp add: encode_Payload_def map_of_Header_Set split: sum.splits)

lemma request_Header_other:
  assumes "request_Header l rh h = Inr h'"
    and "CanonicalMIMEHeaderKey l ''Accept'' \<noteq> K"
    and "\<forall>x. rh = Some x \<longrightarrow> K \<notin> (\<lambda>x. CanonicalMIMEHeaderKey l (fst x)) ` set x"
  shows "map_of h' K = map_of h K"
  using assms
  by (auto simp add: request_Header_def map_of_Header_Add set_first_values_other
      split: option.splits sum.splits if_splits)

lemma request_Header_entry:
  assumes "request_Header l (Some rh) h = Inr h'"
    and "CanonicalMIMEHeaderKey l ''Accept'' \<noteq> CanonicalMIMEHeaderKey l k"
    and "distinct (map (\<lambda>x. CanonicalMIMEHeaderKey l (fst x)) rh)"
    and "(k, v # vs) \<in> set rh"
  shows "map_of h' (CanonicalMIMEHeaderKey l k) = Some [v]"
  using assms
  by (auto simp add: request_Header_def map_of_Header_Add set_first_values_entry
      split: sum.splits if_splits)

lemma set_BasicAuth_other:
  assumes "CanonicalMIMEHeaderKey l ''Authorization'' \<noteq> K"
  shows "map_of (fst (set_BasicAuth l u ui h w)) K = map_of h K"
  using assms by (simp add: fst_set_BasicAuth map_of_Header_Set split: option.splits)

lemma Send_reader_no_body:
  assumes "Payload r = Some (PReader a)"
  shows "\<forall>x \<in> set (drop (length (built w)) (built (wld (Send l w s r)))). snd (snd x) = None"
  using assms
  by (simp add: Send_def encode_Payload_def Let_def split_beta split: sum.splits option.splits)

section \<open>The claims\<close>

text \<open>
  Claim C1, as stated, fails.  The session defaults and the URL both hold the key \<open>a\<close>,
  and the request does not: the parameters stored back on the request and written into
  the URL that is sent carry the value of the URL for \<open>a\<close>, not the session default.
  (The key \<open>k\<close> is in all three layers, and the request-level value wins.)
\<close>

theorem Send_Params_counterexample:
  "lookup (sParams params_session) ''k'' = Some [''session''] \<and>
   lookup (Params params_request) ''k'' = Some [''request''] \<and>
   lookup (sParams params_session) ''a'' = Some [''session''] \<and>
   lookup (Params params_request) ''a'' = None \<and>
   url_Parse demo_lib (Url params_request) =
     Inr \<lparr>Scheme = ''http'', User = None, RawQuery = ''a=url&k=url'',
          Remainder = ''//example.com/api''\<rparr> \<and>
   URL_Query demo_lib \<lparr>Scheme = ''http'', User = None, RawQuery = ''a=url&k=url'',
          Remainder = ''//example.com/api''\<rparr> = [(''a'', [''url'']), (''k'', [''url''])] \<and>
   Params (req (Send demo_lib demo_world params_session params_request)) =
     Some [(''a'', [''url'']), (''k'', [''request''])] \<and>
   lookup (Params (req (Send demo_lib demo_world params_session params_request))) ''a'' \<noteq>
     lookup (sParams params_session) ''a'' \<and>
   map snd (calls (wld (Send demo_lib demo_world params_session params_request))) =
     [\<lparr>req_Method = ''POST'', req_URL = ''http://example.com/api?a=url&k=request'',
       req_Header = [(''Accept'', [''*/*''])], req_Body = None\<rparr>]"
  by (simp add: params_session_def params_request_def lookup_def demo_defs Send_defs)

text \<open>
  Claim C1, amended.  Whenever the URL parses, the merged parameters are stored back on
  the request descriptor, and for every key the request-level value wins over the value
  embedded in the URL, which wins over the session default.  Every request that this
  call builds carries the URL with the merged parameters as its query string.
\<close>

theorem Send_Params_precedence:
  assumes "url_Parse l (Url r) = Inr u"
    and "keys_distinct (sParams s)" and "distinct (map fst (URL_Query l u))"
    and "keys_distinct (Params r)"
  shows "\<exists>p. Params (req (Send l w s r)) = Some p \<and>
     (\<forall>k. map_of p k =
        (case lookup (Params r) k of
           Some v \<Rightarrow> Some v
         | None \<Rightarrow> (case map_of (URL_Query l u) k of
                      Some v \<Rightarrow> Some v
                    | None \<Rightarrow> lookup (sParams s) k))) \<and>
     (\<forall>x \<in> set (drop (length (built w)) (built (wld (Send l w s r)))).
        fst (snd x) = URL_String l (u\<lparr>RawQuery := Values_Encode l p\<rparr>))"
proof -
  let ?p = "merge_Params (sParams s) (URL_Query l u) (Params r)"
  have "Params (req (Send l w s r)) = Some ?p"
    using assms(1) by (rule Send_Params_stored)
  moreover have "\<forall>k. map_of ?p k =
        (case lookup (Params r) k of
           Some v \<Rightarrow> Some v
         | None \<Rightarrow> (case map_of (URL_Query l u) k of
                      Some v \<Rightarrow> Some v
                    | None \<Rightarrow> lookup (sParams s) k))"
    using assms(2-4) by (simp add: merge_Params_map_of)
  moreover have "\<forall>x \<in> set (drop (length (built w)) (built (wld (Send l w s r)))).
        fst (snd x) = URL_String l (u\<lparr>RawQuery := Values_Encode l ?p\<rparr>)"
    using Send_built [OF assms(1), of w s] by auto
  ultimately show ?thesis by blast
qed

text \<open>
  The theorem of C1 at the three layers above.
\<close>

theorem Send_Params_precedence_witness:
  "url_Parse demo_lib (Url params_request) =
     Inr \<lparr>Scheme = ''http'', User = None, RawQuery = ''a=url&k=url'',
          Remainder = ''//example.com/api''\<rparr> \<and>
   keys_distinct (sParams params_session) \<and> keys_distinct (Params params_request) \<and>
   distinct (map fst (URL_Query demo_lib
     \<lparr>Scheme = ''http'', User = None, RawQuery = ''a=url&k=url'',
      Remainder = ''//example.com/api''\<rparr>)) \<and>
   map_of (the (Params (req (Send demo_lib demo_world params_session params_request)))) ''k'' =
     Some [''request''] \<and>
   map_of (the (Params (req (Send demo_lib demo_world params_session params_request)))) ''a'' =
     Some [''url''] \<and>
   map (fst \<circ> snd) (built (wld (Send demo_lib demo_world params_session params_request))) =
     [''http://example.com/api?a=url&k=request'']"
  using Send_Params_precedence [where l = demo_lib and r = params_request and s = params_session
      and w = demo_world
      and u = "\<lparr>Scheme = ''http'', User = None, RawQuery = ''a=url&k=url'',
                 Remainder = ''//example.com/api''\<rparr>"]
  by (simp add: params_session_def params_request_def keys_distinct_def lookup_def
      demo_defs Send_defs)

text \<open>
  Claim C2.  The code does not do what the claim says: for a payload that implements
  \<^verbatim>\<open>io.Reader\<close> the body given to \<^verbatim>\<open>http.NewRequest\<close>, and so the body of the request
  that the transport receives, is nil.  The stream stays in the \<open>Payload\<close> field.
\<close>

theorem Send_stream_body_dropped:
  "Payload stream_request = Some (PReader 7) \<and>
   built (wld (Send demo_lib demo_world demo_session stream_request)) =
     [(''POST'', ''http://example.com/api'', None)] \<and>
   map snd (calls (wld (Send demo_lib demo_world demo_session stream_request))) =
     [\<lparr>req_Method = ''POST'', req_URL = ''http://example.com/api'',
       req_Header = [(''Accept'', [''*/*''])], req_Body = None\<rparr>] \<and>
   Payload (req (Send demo_lib demo_world demo_session stream_request)) = Some (PReader 7)"
  by (simp add: stream_request_def demo_defs Send_defs)

text \<open>
  Claim C3, as stated, fails.  The session supplies \<^verbatim>\<open>Content-Type: text/plain\<close>, the
  payload is a JSON array, and the request that the transport receives has
  \<^verbatim>\<open>Content-Type: application/json\<close>: the session default is not preserved.
\<close>

theorem Send_Content_Type_counterexample:
  "Header_Get demo_lib (the (sHeader plain_session)) ''Content-Type'' = ''text/plain'' \<and>
   Header json_request = None \<and>
   map snd (calls (wld (Send demo_lib demo_world plain_session json_request))) =
     [\<lparr>req_Method = ''POST'', req_URL = ''http://example.com/api'',
       req_Header = [(''Content-Type'', [''application/json'']), (''Accept'', [''*/*''])],
       req_Body = Some (Buffer ''[1,2]'')\<rparr>] \<and>
   Header_Get demo_lib
     (req_Header (snd (last (calls (wld (Send demo_lib demo_world plain_session json_request))))))
     ''Content-Type'' \<noteq> ''text/plain''"
  by (simp add: plain_session_def json_request_def demo_defs Send_defs)

text \<open>
  Claim C3, amended.  When the serialized payload is not empty and its first and last
  bytes are a matching pair of brackets, and the request reaches the transport, then
  whatever the session headers hold: if the request-level headers have no entry for
  \<^verbatim>\<open>Content-Type\<close>, the header of the request sent is \<^verbatim>\<open>application/json\<close>; if they
  have one, the header is its first value.  The canonical form of a header name is a
  function of the library; the names \<^verbatim>\<open>Accept\<close> and \<^verbatim>\<open>Authorization\<close>, which \<open>Send\<close>
  also sets, are taken to differ from \<^verbatim>\<open>Content-Type\<close> in canonical form, and the
  request-level header names to be distinct in canonical form.
\<close>

theorem Send_Content_Type:
  assumes "Payload r = Some p"
    and "payload_bytes l p = Inr (p', bydata)"
    and "bydata \<noteq> ''''" and "json_brackets bydata"
    and "calls (wld (Send l w s r)) = calls w @ [(c, q)]"
    and "CanonicalMIMEHeaderKey l ''Accept'' \<noteq> CanonicalMIMEHeaderKey l ''Content-Type''"
    and "CanonicalMIMEHeaderKey l ''Authorization'' \<noteq> CanonicalMIMEHeaderKey l ''Content-Type''"
  shows "((\<forall>h. Header r = Some h \<longrightarrow>
            CanonicalMIMEHeaderKey l ''Content-Type'' \<notin>
              (\<lambda>x. CanonicalMIMEHeaderKey l (fst x)) ` set h) \<longrightarrow>
          map_of (req_Header q) (CanonicalMIMEHeaderKey l ''Content-Type'') =
            Some [''application/json'']) \<and>
     (\<forall>h k v vs.
        Header r = Some h \<and> distinct (map (\<lambda>x. CanonicalMIMEHeaderKey l (fst x)) h) \<and>
        (k, v # vs) \<in> set h \<and>
        CanonicalMIMEHeaderKey l k = CanonicalMIMEHeaderKey l ''Content-Type'' \<longrightarrow>
        map_of (req_Header q) (CanonicalMIMEHeaderKey l ''Content-Type'') = Some [v])"
proof -
  let ?K = "CanonicalMIMEHeaderKey l ''Content-Type''"
  from assms(5) obtain u0 pl rd h0 h1 where
    enc: "encode_Payload l (Payload r) (session_Header l (sHeader s)) = Inr (pl, rd, h0)"
    and rh: "request_Header l (Header r) h0 = Inr h1"
    and q: "req_Header q =
       fst (set_BasicAuth l
              (u0\<lparr>RawQuery := Values_Encode l (merge_Params (sParams s) (URL_Query l u0) (Params r))\<rparr>)
              (merge_Userinfo (User u0) (sUserinfo s) (Userinfo r)) h1 w)"
    by (rule Send_calls_grew)
  from enc assms(1) have "encode_Payload l (Some p) (session_Header l (sHeader s)) = Inr (pl, rd, h0)"
    by simp
  from encode_Payload_JSON [OF assms(2,3,4) this]
  have h0: "map_of h0 ?K = Some [''application/json'']" .
  have final: "map_of (req_Header q) ?K = map_of h1 ?K"
    unfolding q using assms(7) by (rule set_BasicAuth_other)
  show ?thesis
  proof (intro conjI impI allI)
    assume "\<forall>h. Header r = Some h \<longrightarrow> ?K \<notin> (\<lambda>x. CanonicalMIMEHeaderKey l (fst x)) ` set h"
    from request_Header_other [OF rh assms(6) this] h0 final
    show "map_of (req_Header q) ?K = Some [''application/json'']" by simp
  next
    fix h k v vs
    assume a: "Header r = Some h \<and> distinct (map (\<lambda>x. CanonicalMIMEHeaderKey l (fst x)) h) \<and>
        (k, v # vs) \<in> set h \<and> CanonicalMIMEHeaderKey l k = ?K"
    then have "request_Header l (Some h) h0 = Inr h1" using rh by simp
    from request_Header_entry [OF this, of k v vs] a assms(6) final
    show "map_of (req_Header q) ?K = Some [v]" by simp
  qed
qed

text \<open>
  The theorem of C3 at two inputs: without a request-level \<^verbatim>\<open>Content-Type\<close>, and with
  one.
\<close>

theorem Send_Content_Type_witness:
  "Payload json_request = Some (PBytes ''[1,2]'') \<and>
   payload_bytes demo_lib (PBytes ''[1,2]'') = Inr (PBytes ''[1,2]'', ''[1,2]'') \<and>
   json_brackets ''[1,2]'' \<and>
   CanonicalMIMEHeaderKey demo_lib ''Accept'' \<noteq> CanonicalMIMEHeaderKey demo_lib ''Content-Type'' \<and>
   CanonicalMIMEHeaderKey demo_lib ''Authorization'' \<noteq>
     CanonicalMIMEHeaderKey demo_lib ''Content-Type'' \<and>
   calls (wld (Send demo_lib demo_world plain_session json_request)) =
     calls demo_world @
     [(\<lparr>client_addr = 0, client_Transport = None\<rparr>,
       \<lparr>req_Method = ''POST'', req_URL = ''http://example.com/api'',
        req_Header = [(''Content-Type'', [''application/json'']), (''Accept'', [''*/*''])],
        req_Body = Some (Buffer ''[1,2]'')\<rparr>)] \<and>
   calls (wld (Send demo_lib demo_world plain_session
      (json_request\<lparr>Header := Some [(''content-type'', [''text/csv''])]\<rparr>))) =
     calls demo_world @
     [(\<lparr>client_addr = 0, client_Transport = None\<rparr>,
       \<lparr>req_Method = ''POST'', req_URL = ''http://example.com/api'',
        req_Header = [(''Content-Type'', [''text/csv'']), (''Accept'', [''*/*''])],
        req_Body = Some (Buffer ''[1,2]'')\<rparr>)]"
  using Send_Content_Type [where l = demo_lib and r = json_request and s = plain_session
      and w = demo_world and p = "PBytes ''[1,2]''" and p' = "PBytes ''[1,2]''"
      and bydata = "''[1,2]''" and c = "\<lparr>client_addr = 0, client_Transport = None\<rparr>"
      and q = "\<lparr>req_Method = ''POST'', req_URL = ''http://example.com/api'',
        req_Header = [(''Content-Type'', [''application/json'']), (''Accept'', [''*/*''])],
        req_Body = Some (Buffer ''[1,2]'')\<rparr>"]
    Send_Content_Type [where l = demo_lib
      and r = "json_request\<lparr>Header := Some [(''content-type'', [''text/csv''])]\<rparr>"
      and s = plain_session
      and w = demo_world and p = "PBytes ''[1,2]''" and p' = "PBytes ''[1,2]''"
      and bydata = "''[1,2]''" and c = "\<lparr>client_addr = 0, client_Transport = None\<rparr>"
      and q = "\<lparr>req_Method = ''POST'', req_URL = ''http://example.com/api'',
        req_Header = [(''Content-Type'', [''text/csv'']), (''Accept'', [''*/*''])],
        req_Body = Some (Buffer ''[1,2]'')\<rparr>"]
  by (simp add: plain_session_def json_request_def demo_defs Send_defs)

text \<open>
  Claim C4.  When body capture is enabled, the transport has answered and the body read
  without error is not empty: \<open>Send\<close> returns the response and no error, whatever
  \<^verbatim>\<open>json.Unmarshal\<close> returns; a success destination that was supplied is decoded into
  exactly when the status is at most 200, and an error destination that was supplied
  exactly when the status is above 200.
\<close>

theorem Send_decodes_body:
  assumes "\<not> NotProcessBody r"
    and "calls (wld (Send l w s r)) = calls w @ [(c, q)]"
    and "client_Do l (calls w) c q = Inr resp"
    and "resp_Body resp = (b, None)"
    and "b \<noteq> ''''"
  shows "ret (Send l w s r) = Inr (req (Send l w s r)) \<and>
     body (req (Send l w s r)) = b \<and>
     status (req (Send l w s r)) = StatusCode resp \<and>
     Result (req (Send l w s r)) =
       (if StatusCode resp \<le> 200
        then map_option (\<lambda>dst. snd (json_Unmarshal l b dst)) (Result r) else Result r) \<and>
     Error (req (Send l w s r)) =
       (if StatusCode resp > 200
        then map_option (\<lambda>dst. snd (json_Unmarshal l b dst)) (Error r) else Error r)"
proof -
  from assms(2) obtain u0 pl where
    eq: "ret (Send l w s r) =
       ret (receive l w s
             (r\<lparr>Method := strings_ToUpper l (Method r),
                Params := Some (merge_Params (sParams s) (URL_Query l u0) (Params r)),
                Payload := pl, timestamp := now w\<rparr>)
             (client_Do l (calls w) c q))"
    "req (Send l w s r) =
       req (receive l w s
             (r\<lparr>Method := strings_ToUpper l (Method r),
                Params := Some (merge_Params (sParams s) (URL_Query l u0) (Params r)),
                Payload := pl, timestamp := now w\<rparr>)
             (client_Do l (calls w) c q))"
    by (rule Send_calls_grew)
  let ?R = "r\<lparr>Method := strings_ToUpper l (Method r),
                Params := Some (merge_Params (sParams s) (URL_Query l u0) (Params r)),
                Payload := pl, timestamp := now w\<rparr>"
  have "\<not> NotProcessBody ?R" using assms(1) by simp
  from receive_decodes [OF this assms(4,5), of l w s] eq assms(3)
  show ?thesis by simp
qed

text \<open>
  The theorem of C4 at a 404 answer whose body is not JSON (the decoding fails, the
  error destination keeps its content and \<open>Send\<close> returns the response), and at a 200
  answer whose body is a JSON object (it is decoded into the success destination only).
\<close>

theorem Send_decodes_body_witness:
  "\<not> NotProcessBody missing_request \<and>
   calls (wld (Send demo_lib demo_world demo_session missing_request)) =
     calls demo_world @
     [(\<lparr>client_addr = 0, client_Transport = None\<rparr>,
       \<lparr>req_Method = ''POST'', req_URL = ''http://example.com/missing'',
        req_Header = [(''Accept'', [''*/*''])], req_Body = None\<rparr>)] \<and>
   client_Do demo_lib (calls demo_world) \<lparr>client_addr = 0, client_Transport = None\<rparr>
       \<lparr>req_Method = ''POST'', req_URL = ''http://example.com/missing'',
        req_Header = [(''Accept'', [''*/*''])], req_Body = None\<rparr> =
     Inr \<lparr>StatusCode = 404, resp_Header = [], resp_Body = (''not found'', None)\<rparr> \<and>
   fst (json_Unmarshal demo_lib ''not found'' ''old'') = Some (Err ''invalid character'') \<and>
   ret (Send demo_lib demo_world demo_session missing_request) =
     Inr (req (Send demo_lib demo_world demo_session missing_request)) \<and>
   status (req (Send demo_lib demo_world demo_session missing_request)) = 404 \<and>
   Error (req (Send demo_lib demo_world demo_session missing_request)) = Some ''old'' \<and>
   Result (req (Send demo_lib demo_world demo_session missing_request)) = Some ''old'' \<and>
   \<not> NotProcessBody found_request \<and>
   ret (Send demo_lib demo_world demo_session found_request) =
     Inr (req (Send demo_lib demo_world demo_session found_request)) \<and>
   status (req (Send demo_lib demo_world demo_session found_request)) = 200 \<and>
   Result (req (Send demo_lib demo_world demo_session found_request)) = Some ''{}'' \<and>
   Error (req (Send demo_lib demo_world demo_session found_request)) = Some ''old''"
  using Send_decodes_body [where r = missing_request and l = demo_lib and w = demo_world
      and s = demo_session and c = "\<lparr>client_addr = 0, client_Transport = None\<rparr>"
      and q = "\<lparr>req_Method = ''POST'', req_URL = ''http://example.com/missing'',
        req_Header = [(''Accept'', [''*/*''])], req_Body = None\<rparr>"
      and resp = "\<lparr>StatusCode = 404, resp_Header = [], resp_Body = (''not found'', None)\<rparr>"
      and b = "''not found''"]
    Send_decodes_body [where r = found_request and l = demo_lib and w = demo_world
      and s = demo_session and c = "\<lparr>client_addr = 0, client_Transport = None\<rparr>"
      and q = "\<lparr>req_Method = ''POST'', req_URL = ''http://example.com/api'',
        req_Header = [(''Accept'', [''*/*''])], req_Body = None\<rparr>"
      and resp = "\<lparr>StatusCode = 200, resp_Header = [], resp_Body = (''{}'', None)\<rparr>"
      and b = "''{}''"]
  by (simp add: missing_request_def found_request_def demo_defs Send_defs)

text \<open>
  Claim C5.  \<open>StatusOk\<close> is true exactly when the status is at most 300: true at 300,
  false at 301.
\<close>

theorem StatusOk_boundary:
  "StatusOk r = (status r \<le> 300) \<and> StatusOk (r\<lparr>status := 300\<rparr>) \<and> \<not> StatusOk (r\<lparr>status := 301\<rparr>)"
  by (simp add: StatusOk_def)

text \<open>
  Claim C6.  When the URL does not parse, \<open>Send\<close> returns the error of \<^verbatim>\<open>url.Parse\<close>;
  no request is built, the transport is not called, no client is allocated and the
  session is unchanged.
\<close>

theorem Send_malformed_URL:
  assumes "url_Parse l (Url r) = Inl err"
  shows "ret (Send l w s r) = Inl err \<and> built (wld (Send l w s r)) = built w \<and>
     calls (wld (Send l w s r)) = calls w \<and> allocated (wld (Send l w s r)) = allocated w \<and>
     sess (Send l w s r) = s"
  using assms by (simp add: Send_def)

text \<open>
  The theorem of C6 at the URL \<^verbatim>\<open>:bad\<close>.
\<close>

theorem Send_malformed_URL_witness:
  "url_Parse demo_lib (Url (demo_request\<lparr>Url := '':bad''\<rparr>)) =
     Inl (Err ''missing protocol scheme'') \<and>
   ret (Send demo_lib demo_world demo_session (demo_request\<lparr>Url := '':bad''\<rparr>)) =
     Inl (Err ''missing protocol scheme'') \<and>
   calls (wld (Send demo_lib demo_world demo_session (demo_request\<lparr>Url := '':bad''\<rparr>))) = [] \<and>
   built (wld (Send demo_lib demo_world demo_session (demo_request\<lparr>Url := '':bad''\<rparr>))) = []"
  using Send_malformed_URL [where l = demo_lib and r = "demo_request\<lparr>Url := '':bad''\<rparr>"
      and err = "Err ''missing protocol scheme''" and w = demo_world and s = demo_session]
  by (simp add: demo_defs)

text \<open>
  Claim C7.  When the payload is a map or a struct and \<^verbatim>\<open>json.Marshal\<close> fails on it,
  \<open>Send\<close> returns an error, builds no request and does not call the transport; the
  error is that of \<^verbatim>\<open>json.Marshal\<close> whenever the URL has parsed (otherwise the payload
  is never looked at, and the error is that of the URL).
\<close>

theorem Send_marshal_error:
  assumes "Payload r = Some (PMap v) \<or> Payload r = Some (PStruct v)"
    and "json_Marshal l v = Inl err"
  shows "calls (wld (Send l w s r)) = calls w \<and> built (wld (Send l w s r)) = built w
     \<and> sess (Send l w s r) = s \<and> isl (ret (Send l w s r))
     \<and> (\<forall>u. url_Parse l (Url r) = Inr u \<longrightarrow> ret (Send l w s r) = Inl err)"
  using assms by (auto simp add: Send_def log_def encode_Payload_def Let_def split: sum.splits)

text \<open>
  The theorem of C7 at a struct that holds a channel.
\<close>

theorem Send_marshal_error_witness:
  "Payload (demo_request\<lparr>Payload := Some (PStruct ''chan'')\<rparr>) = Some (PStruct ''chan'') \<and>
   json_Marshal demo_lib ''chan'' = Inl (Err ''json: unsupported type'') \<and>
   ret (Send demo_lib demo_world demo_session (demo_request\<lparr>Payload := Some (PStruct ''chan'')\<rparr>)) =
     Inl (Err ''json: unsupported type'') \<and>
   calls (wld (Send demo_lib demo_world demo_session
     (demo_request\<lparr>Payload := Some (PStruct ''chan'')\<rparr>))) = [] \<and>
   built (wld (Send demo_lib demo_world demo_session
     (demo_request\<lparr>Payload := Some (PStruct ''chan'')\<rparr>))) = []"
  using Send_marshal_error [where l = demo_lib and w = demo_world and s = demo_session
      and r = "demo_request\<lparr>Payload := Some (PStruct ''chan'')\<rparr>" and v = "''chan''"
      and err = "Err ''json: unsupported type''"]
  by (simp add: demo_defs)

text \<open>
  Claim C8.  Any number of calls of \<open>Unmarshal\<close> leave the response, and so the body
  bytes, as they were; each call gives what a first call with the same target gives, and
  so does a call after them.
\<close>

theorem Unmarshal_repeatable:
  "fst (Unmarshal_each l r vs) = r \<and>
   RawByte (fst (Unmarshal_each l r vs)) = RawByte r \<and>
   snd (Unmarshal_each l r vs) = map (\<lambda>v. snd (Unmarshal l r v)) vs \<and>
   Unmarshal l (fst (Unmarshal_each l r vs)) v = Unmarshal l r v"
  by (simp add: Unmarshal_each_keeps)

text \<open>
  Claim C9.  Over any sequence of sends through one session: at most one client is
  allocated; a client that is set is never replaced and none is allocated then; without
  a client at the start, one is allocated exactly when the first request reaches the
  transport; and every call of the transport in the sequence goes through the client
  that the session holds at the end.
\<close>

theorem Sends_one_Client:
  "allocated (snd (Sends l w s rs)) \<le> allocated w + 1 \<and>
   (Client s \<noteq> None \<longrightarrow>
      Client (fst (Sends l w s rs)) = Client s \<and>
      allocated (snd (Sends l w s rs)) = allocated w) \<and>
   (Client s = None \<longrightarrow>
      (Client (fst (Sends l w s rs)) = None \<longleftrightarrow> calls (snd (Sends l w s rs)) = calls w) \<and>
      allocated (snd (Sends l w s rs)) =
        allocated w + (if calls (snd (Sends l w s rs)) = calls w then 0 else 1)) \<and>
   (\<forall>x \<in> set (drop (length (calls w)) (calls (snd (Sends l w s rs)))).
      Client (fst (Sends l w s rs)) = Some (fst x))"
proof (cases "Client s")
  case None
  from Sends_Client_unset [OF None, of l w rs] show ?thesis
  proof
    assume "calls (snd (Sends l w s rs)) = calls w \<and> fst (Sends l w s rs) = s \<and>
          allocated (snd (Sends l w s rs)) = allocated w"
    with None show ?thesis by simp
  next
    assume "\<exists>c ext. ext \<noteq> [] \<and> calls (snd (Sends l w s rs)) = calls w @ ext \<and>
          (\<forall>x\<in>set ext. fst x = c) \<and> Client (fst (Sends l w s rs)) = Some c \<and>
          allocated (snd (Sends l w s rs)) = allocated w + 1"
    with None show ?thesis by fastforce
  qed
next
  case (Some c)
  from Sends_Client_set [OF Some, of l w rs] Some show ?thesis by fastforce
qed

text \<open>
  The theorem of C9 at a session without a client (the first send fails on its URL and
  allocates nothing, the second allocates the client, the third reuses it), and at a
  session with a client.
\<close>

theorem Sends_one_Client_witness:
  "Client demo_session = None \<and>
   Client (fst (Sends demo_lib demo_world demo_session
      [demo_request\<lparr>Url := '':bad''\<rparr>, demo_request, demo_request\<lparr>Transport := Some 3\<rparr>])) =
     Some \<lparr>client_addr = 0, client_Transport = None\<rparr> \<and>
   allocated (snd (Sends demo_lib demo_world demo_session
      [demo_request\<lparr>Url := '':bad''\<rparr>, demo_request, demo_request\<lparr>Transport := Some 3\<rparr>])) = 1 \<and>
   map fst (calls (snd (Sends demo_lib demo_world demo_session
      [demo_request\<lparr>Url := '':bad''\<rparr>, demo_request, demo_request\<lparr>Transport := Some 3\<rparr>]))) =
     [\<lparr>client_addr = 0, client_Transport = None\<rparr>, \<lparr>client_addr = 0, client_Transport = None\<rparr>] \<and>
   Client preset_session \<noteq> None \<and>
   Client (fst (Sends demo_lib demo_world preset_session [demo_request, demo_request])) =
     Client preset_session \<and>
   allocated (snd (Sends demo_lib demo_world preset_session [demo_request, demo_request])) = 0"
  using Sends_one_Client [where l = demo_lib and w = demo_world and s = demo_session
      and rs = "[demo_request\<lparr>Url := '':bad''\<rparr>, demo_request, demo_request\<lparr>Transport := Some 3\<rparr>]"]
    Sends_one_Client [where l = demo_lib and w = demo_world and s = preset_session
      and rs = "[demo_request, demo_request]"]
  by (simp add: preset_session_def demo_defs Send_defs)

text \<open>
  Claim C10.  When the session has a client, the \<open>Transport\<close> field of the request
  changes nothing but its own copy in the request and in the response.  When the session
  has none and the request reaches the transport, the client that is allocated and
  stored has the \<open>Transport\<close> of the request.
\<close>

theorem Send_Transport_ignored:
  "(Client s \<noteq> None \<longrightarrow>
      sess (Send l w s (r\<lparr>Transport := t\<rparr>)) = sess (Send l w s r) \<and>
      wld (Send l w s (r\<lparr>Transport := t\<rparr>)) = wld (Send l w s r) \<and>
      req (Send l w s (r\<lparr>Transport := t\<rparr>)) = (req (Send l w s r))\<lparr>Transport := t\<rparr> \<and>
      ret (Send l w s (r\<lparr>Transport := t\<rparr>)) =
        map_sum id (\<lambda>x. x\<lparr>Transport := t\<rparr>) (ret (Send l w s r))) \<and>
   (Client s = None \<longrightarrow>
      (\<forall>x \<in> set (drop (length (calls w)) (calls (wld (Send l w s r)))).
         client_Transport (fst x) = Transport r \<and> Client (sess (Send l w s r)) = Some (fst x)))"
proof (intro conjI impI)
  assume "Client s \<noteq> None"
  then obtain c where c: "Client s = Some c" by blast
  show "sess (Send l w s (r\<lparr>Transport := t\<rparr>)) = sess (Send l w s r)"
    using c by (simp add: Send_keeps_Client)
  show "wld (Send l w s (r\<lparr>Transport := t\<rparr>)) = wld (Send l w s r)"
    using c
    by (simp add: Send_def receive_def Let_def split_beta get_Client_Some decode_Body_def
        split: sum.splits option.splits)
  show "req (Send l w s (r\<lparr>Transport := t\<rparr>)) = (req (Send l w s r))\<lparr>Transport := t\<rparr>"
    using c
    by (simp add: Send_def receive_def Let_def split_beta get_Client_Some decode_Body_def
        split: sum.splits option.splits)
  show "ret (Send l w s (r\<lparr>Transport := t\<rparr>)) =
        map_sum id (\<lambda>x. x\<lparr>Transport := t\<rparr>) (ret (Send l w s r))"
    using c
    by (simp add: Send_def receive_def Let_def split_beta get_Client_Some decode_Body_def
        split: sum.splits option.splits)
next
  assume "Client s = None"
  from Send_makes_Client [OF this, of l w r]
  show "\<forall>x \<in> set (drop (length (calls w)) (calls (wld (Send l w s r)))).
         client_Transport (fst x) = Transport r \<and> Client (sess (Send l w s r)) = Some (fst x)"
    by auto
qed

text \<open>
  The theorem of C10 at a session with a client and at a session without one.
\<close>

theorem Send_Transport_ignored_witness:
  "Client preset_session \<noteq> None \<and>
   calls (wld (Send demo_lib demo_world preset_session (demo_request\<lparr>Transport := Some 3\<rparr>))) =
     [(\<lparr>client_addr = 9, client_Transport = None\<rparr>,
       \<lparr>req_Method = ''POST'', req_URL = ''http://example.com/api'',
        req_Header = [(''Accept'', [''*/*''])], req_Body = None\<rparr>)] \<and>
   wld (Send demo_lib demo_world preset_session (demo_request\<lparr>Transport := Some 3\<rparr>)) =
     wld (Send demo_lib demo_world preset_session demo_request) \<and>
   Client demo_session = None \<and>
   calls (wld (Send demo_lib demo_world demo_session (demo_request\<lparr>Transport := Some 3\<rparr>))) =
     [(\<lparr>client_addr = 0, client_Transport = Some 3\<rparr>,
       \<lparr>req_Method = ''POST'', req_URL = ''http://example.com/api'',
        req_Header = [(''Accept'', [''*/*''])], req_Body = None\<rparr>)]"
  using Send_Transport_ignored [where l = demo_lib and w = demo_world and s = preset_session
      and r = demo_request and t = "Some 3"]
    Send_Transport_ignored [where l = demo_lib and w = demo_world and s = demo_session
      and r = "demo_request\<lparr>Transport := Some 3\<rparr>" and t = "Some 3"]
  by (simp add: preset_session_def demo_defs Send_defs)

end
